theory Spec2Isabelle
  imports Main
begin

section \<open>JavaScript values used by the worker utilities\<close>

text \<open>
  A JavaScript number that holds a port is either \<open>NaN\<close> or an integer. Rounding of
  integers beyond \<open>2^53\<close> and the sign of zero are not part of this model.
\<close>

datatype number = NaN | Num int

text \<open>A thrown value: an \<open>Error\<close> object with its message, or any other value with its
  \<open>String(...)\<close> rendering.\<close>

datatype thrown = Error string | Thrown string

fun error_text :: "thrown \<Rightarrow> string" where
  "error_text (Error m) = m"
| "error_text (Thrown v) = v"

subsection \<open>\<open>parseInt(s, 10)\<close>\<close>

text \<open>
  ECMAScript \<open>parseInt\<close> with radix 10: leading white space is dropped, one sign is read,
  then the longest prefix of decimal digits; no digit gives \<open>NaN\<close>. Strings are lists of
  ASCII code units, so only the ASCII white space characters occur.
\<close>

definition isWhiteSpace :: "char \<Rightarrow> bool" where
  "isWhiteSpace c \<longleftrightarrow> of_char c \<in> {9, 10, 11, 12, 13, 32 :: nat}"

definition isDigit :: "char \<Rightarrow> bool" where
  "isDigit c \<longleftrightarrow> 48 \<le> (of_char c :: nat) \<and> (of_char c :: nat) \<le> 57"

definition digitsValue :: "string \<Rightarrow> int" where
  "digitsValue Z = foldl (\<lambda>a c. 10 * a + (int (of_char c) - 48)) 0 Z"

definition parseInt :: "string \<Rightarrow> number" where
  "parseInt inputString =
     (let S = dropWhile isWhiteSpace inputString;
          sign = (case S of c # _ \<Rightarrow> if c = CHR ''-'' then - 1 else 1 | [] \<Rightarrow> 1);
          S' = (case S of c # r \<Rightarrow> if c = CHR ''+'' \<or> c = CHR ''-'' then r else S | [] \<Rightarrow> S);
          Z = takeWhile isDigit S'
      in if Z = [] then NaN else Num (sign * digitsValue Z))"

text \<open>
  \<open>Number.parseInt(s)\<close> with no radix: as above, except that after the sign a prefix
  \<open>0x\<close> or \<open>0X\<close> is dropped and the digits are then read in radix 16.
\<close>

definition hexDigit :: "char \<Rightarrow> int option" where
  "hexDigit c =
     (let n = (of_char c :: nat) in
      if 48 \<le> n \<and> n \<le> 57 then Some (int n - 48)
      else if 97 \<le> n \<and> n \<le> 102 then Some (int n - 87)
      else if 65 \<le> n \<and> n \<le> 70 then Some (int n - 55)
      else None)"

definition hexValue :: "string \<Rightarrow> int" where
  "hexValue Z = foldl (\<lambda>a c. 16 * a + (case hexDigit c of Some d \<Rightarrow> d | None \<Rightarrow> 0)) 0 Z"

definition Number_parseInt :: "string \<Rightarrow> number" where
  "Number_parseInt inputString =
     (let S = dropWhile isWhiteSpace inputString;
          sign = (case S of c # _ \<Rightarrow> if c = CHR ''-'' then - 1 else 1 | [] \<Rightarrow> 1);
          S' = (case S of c # r \<Rightarrow> if c = CHR ''+'' \<or> c = CHR ''-'' then r else S | [] \<Rightarrow> S)
      in if take 2 S' = ''0x'' \<or> take 2 S' = ''0X'' then
           (let Z = takeWhile (\<lambda>c. hexDigit c \<noteq> None) (drop 2 S')
            in if Z = [] then NaN else Num (sign * hexValue Z))
         else
           (let Z = takeWhile isDigit S'
            in if Z = [] then NaN else Num (sign * digitsValue Z)))"

definition isNaN :: "number \<Rightarrow> bool" where
  "isNaN n \<longleftrightarrow> n = NaN"

subsection \<open>Numbers in template literals\<close>

fun showNat :: "nat \<Rightarrow> string" where
  "showNat n =
     (if n < 10 then [char_of (48 + n)]
      else showNat (n div 10) @ [char_of (48 + n mod 10)])"

declare showNat.simps [simp del]

definition showInt :: "int \<Rightarrow> string" where
  "showInt i = (if i < 0 then CHR ''-'' # showNat (nat (- i)) else showNat (nat i))"

fun showNumber :: "number \<Rightarrow> string" where
  "showNumber NaN = ''NaN''"
| "showNumber (Num i) = showInt i"

subsection \<open>JSON values\<close>

text \<open>An object is a list of its properties, with distinct keys.\<close>

datatype json =
    JNull
  | JBool bool
  | JNum int
  | JStr string
  | JArr "json list"
  | JObj "(string \<times> json) list"

text \<open>
  Reading a property: \<open>undefined\<close> is \<open>None\<close>; on \<open>null\<close> and \<open>undefined\<close> the read
  throws a \<open>TypeError\<close> (the message is the runtime's).
\<close>

definition cannotRead :: "string \<Rightarrow> string \<Rightarrow> thrown" where
  "cannotRead v k = Error (''Cannot read properties of '' @ v @ '' (reading '' @ k @ '')'')"

fun getProp :: "json option \<Rightarrow> string \<Rightarrow> thrown + json option" where
  "getProp None k = Inl (cannotRead ''undefined'' k)"
| "getProp (Some JNull) k = Inl (cannotRead ''null'' k)"
| "getProp (Some (JObj kvs)) k = Inr (map_of kvs k)"
| "getProp (Some _) k = Inr None"

fun truthy :: "json option \<Rightarrow> bool" where
  "truthy None = False"
| "truthy (Some JNull) = False"
| "truthy (Some (JBool b)) = b"
| "truthy (Some (JNum n)) = (n \<noteq> 0)"
| "truthy (Some (JStr s)) = (s \<noteq> [])"
| "truthy (Some _) = True"

text \<open>Strict inequality \<open>!==\<close>: primitives by value, objects and arrays by identity
  (two values read from different documents are never the same object).\<close>

fun isObject :: "json option \<Rightarrow> bool" where
  "isObject (Some (JArr _)) = True"
| "isObject (Some (JObj _)) = True"
| "isObject _ = False"

definition strictNotEqual :: "json option \<Rightarrow> json option \<Rightarrow> bool" where
  "strictNotEqual a b \<longleftrightarrow> a \<noteq> b \<or> isObject a"

subsection \<open>Requests and responses\<close>

datatype agent = keepAliveAgent | keepAliveHttpsAgent

record init =
  httpMethod :: "string option"
  headers :: "(string \<times> string) list"
  body :: "json option"                  \<comment> \<open>the value given to \<open>JSON.stringify\<close>\<close>
  agent :: "agent option"

definition noInit :: init where
  "noInit = \<lparr>httpMethod = None, headers = [], body = None, agent = None\<rparr>"

record response =
  status :: nat
  jsonBody :: "thrown + json"             \<comment> \<open>what \<open>response.json()\<close> gives\<close>

definition ok :: "response \<Rightarrow> bool" where
  "ok r \<longleftrightarrow> 200 \<le> status r \<and> status r \<le> 299"

datatype level = Debug | Warn

datatype log_entry = Log level string string "(string \<times> string) list"

section \<open>The world a process runs in, and the state of the process\<close>

text \<open>
  The settings object that \<open>SettingsDefaultsManager.loadFromFile\<close> returns; that module
  is not among the sources, so its result is an input: the object, or the value it throws.
  The same holds for \<open>getSessionId\<close>, \<open>readJsonFromStdin\<close>, the TCP probe
  \<open>isPortAvailableAtTcpLevel\<close>, the content of \<open>package.json\<close>, the working directory
  and the network.
  The world is taken as constant during one call of a modelled function.
\<close>

record settings =
  CLAUDE_MEM_WORKER_PORT :: string
  CLAUDE_MEM_WORKER_HOST :: string

record world =
  env :: "(string \<times> string) list"        \<comment> \<open>\<open>process.env\<close>\<close>
  settingsFile :: "thrown + settings"     \<comment> \<open>what \<open>loadFromFile(settingsPath)\<close> gives\<close>
  now :: int                              \<comment> \<open>\<open>Date.now()\<close>, in milliseconds\<close>
  network :: "string \<Rightarrow> init \<Rightarrow> thrown + response"   \<comment> \<open>how a request settles\<close>
  sessionId :: "thrown + string"          \<comment> \<open>what \<open>getSessionId()\<close> gives\<close>
  stdin :: "thrown + json option"         \<comment> \<open>what \<open>readJsonFromStdin()\<close> gives\<close>
  packageJson :: "thrown + json"          \<comment> \<open>\<open>JSON.parse(readFileSync(packageJsonPath))\<close>\<close>
  portFree :: "int \<Rightarrow> string \<Rightarrow> thrown + bool"      \<comment> \<open>the TCP-level probe\<close>
  cwd :: "thrown + string"                \<comment> \<open>what \<open>process.cwd()\<close> gives\<close>

text \<open>
  The module state of \<open>worker-utils\<close> (\<open>cachedPort\<close>, \<open>cachedHost\<close>, \<open>cacheTime\<close>),
  and what the process has done so far: the settings-file reads it made, the requests it
  issued, the ports it probed, the log entries and the lines written to the two streams
  (each line is the value given to \<open>JSON.stringify\<close>).
\<close>

record proc =
  cachedPort :: "number option"
  cachedHost :: "string option"
  cacheTime :: int
  fileReads :: nat
  requests :: "(string \<times> init) list"
  probes :: "int list"
  logged :: "log_entry list"
  stdout :: "json list"
  stderr :: "json list"

definition initial :: proc where
  "initial = \<lparr>cachedPort = None, cachedHost = None, cacheTime = 0, fileReads = 0,
     requests = [], probes = [], logged = [], stdout = [], stderr = []\<rparr>"

definition CACHE_TTL :: int where
  "CACHE_TTL = 60000"

definition loadFromFile :: "world \<Rightarrow> proc \<Rightarrow> (thrown + settings) \<times> proc" where
  "loadFromFile w s = (settingsFile w, s\<lparr>fileReads := Suc (fileReads s)\<rparr>)"

definition fetch :: "world \<Rightarrow> string \<Rightarrow> init \<Rightarrow> proc \<Rightarrow> (thrown + response) \<times> proc" where
  "fetch w url i s = (network w url i, s\<lparr>requests := requests s @ [(url, i)]\<rparr>)"

definition isPortAvailableAtTcpLevel ::
    "world \<Rightarrow> int \<Rightarrow> string \<Rightarrow> proc \<Rightarrow> (thrown + bool) \<times> proc" where
  "isPortAvailableAtTcpLevel w port host s = (portFree w port host, s\<lparr>probes := probes s @ [port]\<rparr>)"

definition logger :: "level \<Rightarrow> string \<Rightarrow> string \<Rightarrow> (string \<times> string) list \<Rightarrow> proc \<Rightarrow> proc" where
  "logger l c m d s = s\<lparr>logged := logged s @ [Log l c m d]\<rparr>"

section \<open>Connection cache\<close>

text \<open>Lines 48 to 53 of \<open>getWorkerPort\<close>: the value returned early, if any.\<close>

definition envOverride :: "world \<Rightarrow> number option" where
  "envOverride w =
     (case map_of (env w) ''CLAUDE_MEM_WORKER_PORT'' of
        None \<Rightarrow> None
      | Some v \<Rightarrow>
          if v \<noteq> [] then
            (let envPort = parseInt v in if \<not> isNaN envPort then Some envPort else None)
          else None)"

text \<open>Lines 62 to 68: the cache is expired or not set, reload from the file.\<close>

definition reloadPort :: "world \<Rightarrow> proc \<Rightarrow> (thrown + number) \<times> proc" where
  "reloadPort w s =
     (case loadFromFile w s of
        (Inl e, s') \<Rightarrow> (Inl e, s')
      | (Inr st, s') \<Rightarrow>
          (Inr (parseInt (CLAUDE_MEM_WORKER_PORT st)),
           s'\<lparr>cachedPort := Some (parseInt (CLAUDE_MEM_WORKER_PORT st)), cacheTime := now w\<rparr>))"

definition getWorkerPort :: "world \<Rightarrow> proc \<Rightarrow> (thrown + number) \<times> proc" where
  "getWorkerPort w s =
     (case envOverride w of
        Some envPort \<Rightarrow> (Inr envPort, s)
      | None \<Rightarrow>
          (case cachedPort s of
             Some p \<Rightarrow> if now w - cacheTime s < CACHE_TTL then (Inr p, s) else reloadPort w s
           | None \<Rightarrow> reloadPort w s))"

definition getWorkerHost :: "world \<Rightarrow> proc \<Rightarrow> (thrown + string) \<times> proc" where
  "getWorkerHost w s =
     (case cachedHost s of
        Some h \<Rightarrow> (Inr h, s)
      | None \<Rightarrow>
          (case loadFromFile w s of
             (Inl e, s') \<Rightarrow> (Inl e, s')
           | (Inr st, s') \<Rightarrow>
               (Inr (CLAUDE_MEM_WORKER_HOST st),
                s'\<lparr>cachedHost := Some (CLAUDE_MEM_WORKER_HOST st)\<rparr>)))"

definition clearPortCache :: "proc \<Rightarrow> proc" where
  "clearPortCache s = s\<lparr>cachedPort := None, cachedHost := None\<rparr>"

section \<open>Port allocator\<close>

text \<open>
  The loop of \<open>findAvailablePort\<close>, from index \<open>i\<close>. \<open>basePort\<close> is an integer here.
  A probe that throws ends the call with what it threw: there is no handler around it.
\<close>

definition warnFallback :: "int \<Rightarrow> int \<Rightarrow> proc \<Rightarrow> proc" where
  "warnFallback basePort portToTry s =
     logger Warn ''SYSTEM''
       (''Port '' @ showInt basePort @ '' is occupied, using fallback port '' @ showInt portToTry) [] s"

function findAvailablePort_from ::
    "world \<Rightarrow> int \<Rightarrow> string \<Rightarrow> int \<Rightarrow> int \<Rightarrow> proc \<Rightarrow> (thrown + int) \<times> proc" where
  "findAvailablePort_from w basePort host maxAttempts i s =
     (if i < maxAttempts then
        (let portToTry = basePort + i in
         (case isPortAvailableAtTcpLevel w portToTry host s of
            (Inl e, s') \<Rightarrow> (Inl e, s')
          | (Inr free, s') \<Rightarrow>
              if free then
                (Inr portToTry,
                 if i > 0 then warnFallback basePort portToTry s' else s')
              else findAvailablePort_from w basePort host maxAttempts (i + 1) s'))
      else (Inr basePort, s))"
  by pat_completeness auto
termination
  by (relation "measure (\<lambda>(w, basePort, host, maxAttempts, i, s). nat (maxAttempts - i))") auto

definition findAvailablePort ::
    "world \<Rightarrow> int \<Rightarrow> string \<Rightarrow> int \<Rightarrow> proc \<Rightarrow> (thrown + int) \<times> proc" where
  "findAvailablePort w basePort host maxAttempts s =
     findAvailablePort_from w basePort host maxAttempts 0 s"

section \<open>Keep-alive transport\<close>

definition startsWith :: "string \<Rightarrow> string \<Rightarrow> bool" where
  "startsWith s p \<longleftrightarrow> take (length p) s = p"

definition fetchKeepAlive ::
    "world \<Rightarrow> string \<Rightarrow> init \<Rightarrow> proc \<Rightarrow> (thrown + response) \<times> proc" where
  "fetchKeepAlive w url i s =
     (let isHttps = startsWith url ''https://'';
          ag = (if isHttps then keepAliveHttpsAgent else keepAliveAgent)
      in fetch w url (i\<lparr>agent := Some ag\<rparr>) s)"

section \<open>Liveness and version\<close>

text \<open>The template literal \<open>`http://127.0.0.1:${port}${path}`\<close>.\<close>

definition apiUrl :: "number \<Rightarrow> string \<Rightarrow> string" where
  "apiUrl port path = ''http://127.0.0.1:'' @ showNumber port @ path"

definition isWorkerHealthy :: "world \<Rightarrow> proc \<Rightarrow> (thrown + bool) \<times> proc" where
  "isWorkerHealthy w s =
     (case getWorkerPort w s of
        (Inl e, s1) \<Rightarrow> (Inl e, s1)
      | (Inr port, s1) \<Rightarrow>
          (case fetchKeepAlive w (apiUrl port ''/api/health'') noInit s1 of
             (Inl e, s2) \<Rightarrow> (Inl e, s2)
           | (Inr response, s2) \<Rightarrow> (Inr (ok response), s2)))"

definition getPluginVersion :: "world \<Rightarrow> thrown + json option" where
  "getPluginVersion w =
     (case packageJson w of
        Inl e \<Rightarrow> Inl e
      | Inr pkg \<Rightarrow> getProp (Some pkg) ''version'')"

definition getWorkerVersion :: "world \<Rightarrow> proc \<Rightarrow> (thrown + json option) \<times> proc" where
  "getWorkerVersion w s =
     (case getWorkerPort w s of
        (Inl e, s1) \<Rightarrow> (Inl e, s1)
      | (Inr port, s1) \<Rightarrow>
          (case fetchKeepAlive w (apiUrl port ''/api/version'') noInit s1 of
             (Inl e, s2) \<Rightarrow> (Inl e, s2)
           | (Inr response, s2) \<Rightarrow>
               if \<not> ok response then
                 (Inl (Error (''Failed to get worker version: '' @ showNat (status response))), s2)
               else
                 (case jsonBody response of
                    Inl e \<Rightarrow> (Inl e, s2)
                  | Inr data \<Rightarrow> (getProp (Some data) ''version'', s2))))"

text \<open>The debug entry of a version mismatch is recorded with its note; the two version
  values of its data are left out.\<close>

definition checkWorkerVersion :: "world \<Rightarrow> proc \<Rightarrow> (thrown + unit) \<times> proc" where
  "checkWorkerVersion w s =
     (case getPluginVersion w of
        Inl e \<Rightarrow> (Inl e, s)
      | Inr pluginVersion \<Rightarrow>
          (case getWorkerVersion w s of
             (Inl e, s1) \<Rightarrow> (Inl e, s1)
           | (Inr workerVersion, s1) \<Rightarrow>
               if strictNotEqual pluginVersion workerVersion then
                 (Inr (), logger Debug ''SYSTEM'' ''Version check''
                    [(''note'', ''Mismatch will be auto-restarted by worker-service start command'')] s1)
               else (Inr (), s1)))"

text \<open>The \<open>catch\<close> block of \<open>ensureWorkerRunning\<close> and the two lines after it.\<close>

definition notHealthy :: "proc \<Rightarrow> bool \<times> proc" where
  "notHealthy s =
     (False, logger Warn ''SYSTEM'' ''Worker not healthy, hook will proceed gracefully'' [] s)"

definition healthCheckFailed :: "thrown \<Rightarrow> proc \<Rightarrow> bool \<times> proc" where
  "healthCheckFailed e s =
     notHealthy (logger Debug ''SYSTEM'' ''Worker health check failed'' [(''error'', error_text e)] s)"

definition ensureWorkerRunning :: "world \<Rightarrow> proc \<Rightarrow> bool \<times> proc" where
  "ensureWorkerRunning w s =
     (case isWorkerHealthy w s of
        (Inl e, s1) \<Rightarrow> healthCheckFailed e s1
      | (Inr healthy, s1) \<Rightarrow>
          if healthy then
            (case checkWorkerVersion w s1 of
               (Inl e, s2) \<Rightarrow> healthCheckFailed e s2
             | (Inr _, s2) \<Rightarrow> (True, s2))
          else notHealthy s1)"

section \<open>Lifecycle hook handlers\<close>

text \<open>The \<open>catch\<close> block, the same in the four handlers.\<close>

definition errorLine :: "thrown \<Rightarrow> json" where
  "errorLine e = JObj [(''error'', JStr (error_text e)), (''exitCode'', JNum 2)]"

definition caught :: "thrown \<Rightarrow> proc \<Rightarrow> nat \<times> proc" where
  "caught e s = (2, s\<lparr>stderr := stderr s @ [errorLine e]\<rparr>)"

definition post :: "json \<Rightarrow> init" where
  "post b = \<lparr>httpMethod = Some ''POST'', headers = [(''Content-Type'', ''application/json'')],
     body = Some b, agent = None\<rparr>"

definition sessionUrl :: "number \<Rightarrow> string \<Rightarrow> string \<Rightarrow> string" where
  "sessionUrl port sid action =
     ''http://127.0.0.1:'' @ showNumber port @ ''/api/sessions/'' @ sid @ ''/'' @ action"

definition stoppedLine :: "string \<Rightarrow> json" where
  "stoppedLine m =
     JObj [(''continue'', JBool False), (''suppressOutput'', JBool True), (''message'', JStr m)]"

definition continueLine :: json where
  "continueLine =
     JObj [(''continue'', JBool True), (''suppressOutput'', JBool False), (''exitCode'', JNum 3)]"

definition handleStop :: "world \<Rightarrow> proc \<Rightarrow> nat \<times> proc" where
  "handleStop w s =
     (case sessionId w of
        Inl e \<Rightarrow> caught e s
      | Inr sid \<Rightarrow>
          (case getWorkerPort w s of
             (Inl e, s1) \<Rightarrow> caught e s1
           | (Inr port, s1) \<Rightarrow>
               (case fetch w (sessionUrl port sid ''prepare'') (post (JObj [])) s1 of
                  (Inl e, s2) \<Rightarrow> caught e s2
                | (Inr response, s2) \<Rightarrow>
                    if \<not> ok response then
                      caught (Error (''Failed to prepare session: '' @ showNat (status response))) s2
                    else (0, s2\<lparr>stdout := stdout s2 @ [stoppedLine ''Session stopped'']\<rparr>))))"

definition handleSessionEnd :: "world \<Rightarrow> proc \<Rightarrow> nat \<times> proc" where
  "handleSessionEnd w s =
     (case sessionId w of
        Inl e \<Rightarrow> caught e s
      | Inr sid \<Rightarrow>
          (case getWorkerPort w s of
             (Inl e, s1) \<Rightarrow> caught e s1
           | (Inr port, s1) \<Rightarrow>
               (case fetch w (sessionUrl port sid ''compress'') (post (JObj [])) s1 of
                  (Inl e, s2) \<Rightarrow> caught e s2
                | (Inr response, s2) \<Rightarrow>
                    if \<not> ok response then
                      caught (Error (''Failed to compress session: '' @ showNat (status response))) s2
                    else
                      (0, s2\<lparr>stdout := stdout s2 @ [stoppedLine ''Session compressed and stored'']\<rparr>))))"

text \<open>\<open>input.prompt || input\<close>\<close>

definition promptOf :: "json option \<Rightarrow> thrown + json option" where
  "promptOf input =
     (case getProp input ''prompt'' of
        Inl e \<Rightarrow> Inl e
      | Inr p \<Rightarrow> Inr (if truthy p then p else input))"

text \<open>An object literal with one property; \<open>JSON.stringify\<close> leaves an \<open>undefined\<close>
  property out.\<close>

definition single :: "string \<Rightarrow> json option \<Rightarrow> json" where
  "single k v = JObj (case v of None \<Rightarrow> [] | Some x \<Rightarrow> [(k, x)])"

definition handleUserPromptSubmit :: "world \<Rightarrow> proc \<Rightarrow> nat \<times> proc" where
  "handleUserPromptSubmit w s =
     (case sessionId w of
        Inl e \<Rightarrow> caught e s
      | Inr sid \<Rightarrow>
          (case stdin w of
             Inl e \<Rightarrow> caught e s
           | Inr input \<Rightarrow>
               (case getWorkerPort w s of
                  (Inl e, s1) \<Rightarrow> caught e s1
                | (Inr port, s1) \<Rightarrow>
                    (case promptOf input of
                       Inl e \<Rightarrow> caught e s1
                     | Inr prompt \<Rightarrow>
                         (case fetchKeepAlive w (sessionUrl port sid ''prompt'')
                                 (post (single ''prompt'' prompt)) s1 of
                            (Inl e, s2) \<Rightarrow> caught e s2
                          | (Inr response, s2) \<Rightarrow>
                              if \<not> ok response then
                                caught (Error (''Failed to save prompt: '' @ showNat (status response))) s2
                              else (3, s2\<lparr>stdout := stdout s2 @ [continueLine]\<rparr>))))))"

definition handlePostToolUse :: "world \<Rightarrow> proc \<Rightarrow> nat \<times> proc" where
  "handlePostToolUse w s =
     (case sessionId w of
        Inl e \<Rightarrow> caught e s
      | Inr sid \<Rightarrow>
          (case stdin w of
             Inl e \<Rightarrow> caught e s
           | Inr input \<Rightarrow>
               (case getWorkerPort w s of
                  (Inl e, s1) \<Rightarrow> caught e s1
                | (Inr port, s1) \<Rightarrow>
                    (case fetch w (sessionUrl port sid ''observation'')
                            (post (single ''observation'' input)) s1 of
                       (Inl e, s2) \<Rightarrow> caught e s2
                     | (Inr response, s2) \<Rightarrow>
                         if \<not> ok response then
                           caught (Error (''Failed to save observation: '' @ showNat (status response))) s2
                         else (3, s2\<lparr>stdout := stdout s2 @ [continueLine]\<rparr>)))))"

text \<open>
  The session-start handler. It takes the port from \<open>process.env.WORKER_PORT\<close>, with
  \<open>'37777'\<close> when the variable is unset or empty, and it does not look at
  \<open>response.ok\<close>: the body of the response is parsed and injected whatever the status.
\<close>

definition injectLine :: "json \<Rightarrow> json" where
  "injectLine context =
     JObj [(''continue'', JBool True), (''suppressOutput'', JBool True), (''inject'', context)]"

definition startPort :: "world \<Rightarrow> number" where
  "startPort w =
     Number_parseInt
       (case map_of (env w) ''WORKER_PORT'' of
          None \<Rightarrow> ''37777''
        | Some v \<Rightarrow> if v \<noteq> [] then v else ''37777'')"

definition handleSessionStart :: "world \<Rightarrow> proc \<Rightarrow> nat \<times> proc" where
  "handleSessionStart w s =
     (case sessionId w of
        Inl e \<Rightarrow> caught e s
      | Inr sid \<Rightarrow>
          (case cwd w of
             Inl e \<Rightarrow> caught e s
           | Inr project \<Rightarrow>
               (case fetchKeepAlive w (apiUrl (startPort w) ''/api/sessions/init'')
                       (post (JObj [(''sessionId'', JStr sid), (''project'', JStr project),
                                    (''prompt'', JStr [])])) s of
                  (Inl e, s2) \<Rightarrow> caught e s2
                | (Inr response, s2) \<Rightarrow>
                    (case jsonBody response of
                       Inl e \<Rightarrow> caught e s2
                     | Inr context \<Rightarrow> (0, s2\<lparr>stdout := stdout s2 @ [injectLine context]\<rparr>)))))"

text \<open>
  What a handler owes the host runtime, for a handler with the given success code, success
  line and failure prefix: the exit code is the success code or 2; it is the success code
  exactly when the handler issued one request and the network answered it with a 2xx
  response, and then the success line is written to the output stream; on exit code 2 one
  line with the error text is written to the error stream; a non-2xx answer, a rejected
  request and a failing \<open>getSessionId\<close> each give the line of that error.
\<close>

definition hookContract ::
    "(world \<Rightarrow> proc \<Rightarrow> nat \<times> proc) \<Rightarrow> nat \<Rightarrow> json \<Rightarrow> string \<Rightarrow> world \<Rightarrow> proc \<Rightarrow> bool" where
  "hookContract handler successCode line failed w s \<longleftrightarrow>
     (case handler w s of
        (code, s') \<Rightarrow>
          (code = successCode \<or> code = 2) \<and>
          (code = successCode \<longleftrightarrow>
             (\<exists>url i r. requests s' = requests s @ [(url, i)] \<and> network w url i = Inr r \<and> ok r)) \<and>
          (code = successCode \<longrightarrow> stdout s' = stdout s @ [line] \<and> stderr s' = stderr s) \<and>
          (code = 2 \<longrightarrow> stdout s' = stdout s \<and> (\<exists>e. stderr s' = stderr s @ [errorLine e])) \<and>
          (\<forall>url i r. requests s' = requests s @ [(url, i)] \<and> network w url i = Inr r \<and> \<not> ok r \<longrightarrow>
             stderr s' = stderr s @ [errorLine (Error (failed @ showNat (status r)))]) \<and>
          (\<forall>url i e. requests s' = requests s @ [(url, i)] \<and> network w url i = Inl e \<longrightarrow>
             stderr s' = stderr s @ [errorLine e]) \<and>
          (\<forall>e. sessionId w = Inl e \<longrightarrow> stderr s' = stderr s @ [errorLine e]))"

section \<open>Request with a timeout\<close>













section \<open>Runs of calls and example worlds\<close>

text \<open>A client that calls \<open>getWorkerHost\<close> once in each world of a list, in order.\<close>

fun getWorkerHost_calls :: "world list \<Rightarrow> proc \<Rightarrow> (thrown + string) list \<times> proc" where
  "getWorkerHost_calls [] s = ([], s)"
| "getWorkerHost_calls (w # ws) s =
     (case getWorkerHost w s of
        (r, s') \<Rightarrow> (case getWorkerHost_calls ws s' of (rs, s'') \<Rightarrow> (r # rs, s'')))"

text \<open>
  A world with the settings file of a default installation, no listener on any port, and
  ports 37777 and 37778 taken; and variations of it.
\<close>

definition refused :: "string \<Rightarrow> init \<Rightarrow> thrown + response" where
  "refused url i = Inl (Error ''connect ECONNREFUSED'')"

definition exampleWorld :: world where
  "exampleWorld =
     \<lparr>env = [],
      settingsFile = Inr \<lparr>CLAUDE_MEM_WORKER_PORT = ''37777'', CLAUDE_MEM_WORKER_HOST = ''127.0.0.1''\<rparr>,
      now = 1000,
      network = refused,
      sessionId = Inr ''s1'',
      stdin = Inr (Some (JObj [(''prompt'', JStr ''hi'')])),
      packageJson = Inr (JObj [(''version'', JStr ''9.1.2'')]),
      portFree = (\<lambda>port host. Inr (37779 \<le> port)),
      cwd = Inr ''/home/dev/project''\<rparr>"

definition filled :: proc where
  "filled = initial\<lparr>fileReads := 1, cachedPort := Some (Num 37777), cacheTime := 1000\<rparr>"

definition movedWorld :: world where
  "movedWorld = exampleWorld\<lparr>now := 61000,
     settingsFile := Inr \<lparr>CLAUDE_MEM_WORKER_PORT = ''40000'', CLAUDE_MEM_WORKER_HOST = ''10.0.0.7''\<rparr>\<rparr>"

definition overridden :: world where
  "overridden = exampleWorld\<lparr>env :=
     [(''CLAUDE_MEM_WORKER_PORT'', ''40123''), (''CLAUDE_MEM_WORKER_HOST'', ''10.0.0.5'')]\<rparr>"

definition badSettings :: world where
  "badSettings = exampleWorld\<lparr>settingsFile :=
     Inr \<lparr>CLAUDE_MEM_WORKER_PORT = ''auto'', CLAUDE_MEM_WORKER_HOST = ''127.0.0.1''\<rparr>\<rparr>"

definition allTaken :: world where
  "allTaken = exampleWorld\<lparr>portFree := (\<lambda>port host. Inr False)\<rparr>"

text \<open>A worker that answers every request with 200, one that answers with 500, and one
  that answers the health probe and drops every other request.\<close>

definition accepting :: world where
  "accepting = exampleWorld\<lparr>network := (\<lambda>url i. Inr \<lparr>status = 200, jsonBody = Inr (JObj [])\<rparr>)\<rparr>"

definition failing :: world where
  "failing = exampleWorld\<lparr>network := (\<lambda>url i. Inr \<lparr>status = 500, jsonBody = Inr (JObj [])\<rparr>)\<rparr>"

definition healthyNoVersion :: world where
  "healthyNoVersion = exampleWorld\<lparr>network :=
     (\<lambda>url i. if url = ''http://127.0.0.1:37777/api/health''
               then Inr \<lparr>status = 200, jsonBody = Inr (JObj [(''status'', JStr ''ok'')])\<rparr>
               else Inl (Error ''socket hang up''))\<rparr>"



section \<open>Properties of the connection cache\<close>


lemma envOverride_unset:
  "map_of (env w) ''CLAUDE_MEM_WORKER_PORT'' = None \<Longrightarrow> envOverride w = None"
  by (simp add: envOverride_def)





lemma getWorkerPort_hit:
  "envOverride w = None \<Longrightarrow> cachedPort s = Some p \<Longrightarrow> now w - cacheTime s < CACHE_TTL \<Longrightarrow>
   getWorkerPort w s = (Inr p, s)"
  by (simp add: getWorkerPort_def)

lemma getWorkerPort_miss:
  "envOverride w = None \<Longrightarrow> cachedPort s = None \<or> CACHE_TTL \<le> now w - cacheTime s \<Longrightarrow>
   getWorkerPort w s = reloadPort w s"
  by (auto simp: getWorkerPort_def split: option.splits)

lemma reloadPort_ok:
  "settingsFile w = Inr st \<Longrightarrow>
   reloadPort w s = (Inr (parseInt (CLAUDE_MEM_WORKER_PORT st)),
     s\<lparr>fileReads := Suc (fileReads s), cachedPort := Some (parseInt (CLAUDE_MEM_WORKER_PORT st)),
       cacheTime := now w\<rparr>)"
  by (simp add: reloadPort_def loadFromFile_def Let_def)

lemma reloadPort_reads: "fileReads (snd (reloadPort w s)) = Suc (fileReads s)"
  by (simp add: reloadPort_def loadFromFile_def Let_def split: sum.splits)

lemma reloadPort_fresh:
  "fst (reloadPort w s) =
     (case settingsFile w of Inl e \<Rightarrow> Inl e | Inr st \<Rightarrow> Inr (parseInt (CLAUDE_MEM_WORKER_PORT st)))"
  by (simp add: reloadPort_def loadFromFile_def Let_def split: sum.splits)

lemma parseInt_40123: "parseInt ''40123'' = Num 40123"
  by (simp add: parseInt_def isWhiteSpace_def isDigit_def digitsValue_def)

lemma parseInt_auto: "parseInt ''auto'' = NaN"
  by (simp add: parseInt_def isWhiteSpace_def isDigit_def digitsValue_def)

lemma parseInt_37777: "parseInt ''37777'' = Num 37777"
  by (simp add: parseInt_def isWhiteSpace_def isDigit_def digitsValue_def)

lemma parseInt_40000: "parseInt ''40000'' = Num 40000"
  by (simp add: parseInt_def isWhiteSpace_def isDigit_def digitsValue_def)




text \<open>
  C5: with no override in the environment, let a call of \<open>getWorkerPort\<close> find the cache
  empty or expired and fill it from the settings file (one read). Two later calls whose
  clock readings are less than 60000 ms after the fill return the port of the fill and
  read nothing, so that the state stays as the fill left it. A call whose clock reading is
  60000 ms or more after the fill reads the settings file exactly once and returns what
  that fresh read gives, not the stored port.
\<close>

theorem getWorkerPort_ttl:
  assumes "map_of (env w0) ''CLAUDE_MEM_WORKER_PORT'' = None"
    and "map_of (env w1) ''CLAUDE_MEM_WORKER_PORT'' = None"
    and "map_of (env w2) ''CLAUDE_MEM_WORKER_PORT'' = None"
    and "map_of (env w3) ''CLAUDE_MEM_WORKER_PORT'' = None"
    and miss: "cachedPort s0 = None \<or> CACHE_TTL \<le> now w0 - cacheTime s0"
    and load: "settingsFile w0 = Inr st"
    and fill: "getWorkerPort w0 s0 = (r, s1)"
    and "now w1 - now w0 < CACHE_TTL" and "now w2 - now w0 < CACHE_TTL"
    and "CACHE_TTL \<le> now w3 - now w0"
  shows "r = Inr (parseInt (CLAUDE_MEM_WORKER_PORT st)) \<and> fileReads s1 = fileReads s0 + 1 \<and>
         getWorkerPort w1 s1 = (r, s1) \<and> getWorkerPort w2 (snd (getWorkerPort w1 s1)) = (r, s1) \<and>
         fileReads (snd (getWorkerPort w3 s1)) = fileReads s1 + 1 \<and>
         fst (getWorkerPort w3 s1) =
           (case settingsFile w3 of Inl e \<Rightarrow> Inl e
            | Inr st' \<Rightarrow> Inr (parseInt (CLAUDE_MEM_WORKER_PORT st')))"
proof -
  let ?p = "parseInt (CLAUDE_MEM_WORKER_PORT st)"
  have e: "envOverride w0 = None" "envOverride w1 = None" "envOverride w2 = None"
      "envOverride w3 = None"
    using assms(1-4) by (simp_all add: envOverride_unset)
  have "getWorkerPort w0 s0 = reloadPort w0 s0"
    using e(1) miss by (rule getWorkerPort_miss)
  with fill load have r: "r = Inr ?p"
    and s1: "s1 = s0\<lparr>fileReads := Suc (fileReads s0), cachedPort := Some ?p, cacheTime := now w0\<rparr>"
    by (simp_all add: reloadPort_ok)
  have c: "cachedPort s1 = Some ?p" "cacheTime s1 = now w0" "fileReads s1 = fileReads s0 + 1"
    by (simp_all add: s1)
  have h1: "getWorkerPort w1 s1 = (r, s1)"
    using e(2) c assms(8) by (simp add: getWorkerPort_hit r)
  have h2: "getWorkerPort w2 s1 = (r, s1)"
    using e(3) c assms(9) by (simp add: getWorkerPort_hit r)
  have m3: "getWorkerPort w3 s1 = reloadPort w3 s1"
    using e(4) c assms(10) by (simp add: getWorkerPort_miss)
  show ?thesis
    using r c(3) h1 h2 by (simp add: m3 reloadPort_reads reloadPort_fresh)
qed


theorem getWorkerPort_ttl_witness:
  "getWorkerPort exampleWorld initial = (Inr (Num 37777), filled) \<and>
   getWorkerPort (exampleWorld\<lparr>now := 2000\<rparr>) filled = (Inr (Num 37777), filled) \<and>
   getWorkerPort (exampleWorld\<lparr>now := 60999\<rparr>) filled = (Inr (Num 37777), filled) \<and>
   fst (getWorkerPort movedWorld filled) = Inr (Num 40000) \<and>
   fileReads (snd (getWorkerPort movedWorld filled)) = 2"
proof -
  have e: "map_of (env exampleWorld) ''CLAUDE_MEM_WORKER_PORT'' = None"
      "map_of (env (exampleWorld\<lparr>now := 2000\<rparr>)) ''CLAUDE_MEM_WORKER_PORT'' = None"
      "map_of (env (exampleWorld\<lparr>now := 60999\<rparr>)) ''CLAUDE_MEM_WORKER_PORT'' = None"
      "map_of (env movedWorld) ''CLAUDE_MEM_WORKER_PORT'' = None"
    by (simp_all add: exampleWorld_def movedWorld_def)
  have miss: "cachedPort initial = None \<or> CACHE_TTL \<le> now exampleWorld - cacheTime initial"
    by (simp add: initial_def)
  have load: "settingsFile exampleWorld =
      Inr \<lparr>CLAUDE_MEM_WORKER_PORT = ''37777'', CLAUDE_MEM_WORKER_HOST = ''127.0.0.1''\<rparr>"
    by (simp add: exampleWorld_def)
  have fill: "getWorkerPort exampleWorld initial = (Inr (Num 37777), filled)"
    by (simp add: getWorkerPort_def envOverride_def reloadPort_def loadFromFile_def
        exampleWorld_def initial_def filled_def CACHE_TTL_def parseInt_37777)
  have t: "now (exampleWorld\<lparr>now := 2000\<rparr>) - now exampleWorld < CACHE_TTL"
      "now (exampleWorld\<lparr>now := 60999\<rparr>) - now exampleWorld < CACHE_TTL"
      "CACHE_TTL \<le> now movedWorld - now exampleWorld"
    by (simp_all add: exampleWorld_def movedWorld_def CACHE_TTL_def)
  have moved: "settingsFile movedWorld =
      Inr \<lparr>CLAUDE_MEM_WORKER_PORT = ''40000'', CLAUDE_MEM_WORKER_HOST = ''10.0.0.7''\<rparr>"
    by (simp add: movedWorld_def)
  note T = getWorkerPort_ttl [OF e miss load fill t]
  from T have a: "getWorkerPort (exampleWorld\<lparr>now := 2000\<rparr>) filled = (Inr (Num 37777), filled)"
    by blast
  from T have "getWorkerPort (exampleWorld\<lparr>now := 60999\<rparr>)
      (snd (getWorkerPort (exampleWorld\<lparr>now := 2000\<rparr>) filled)) = (Inr (Num 37777), filled)"
    by blast
  then have b: "getWorkerPort (exampleWorld\<lparr>now := 60999\<rparr>) filled = (Inr (Num 37777), filled)"
    by (simp add: a)
  from T have "fileReads (snd (getWorkerPort movedWorld filled)) = fileReads filled + 1"
    by blast
  then have c: "fileReads (snd (getWorkerPort movedWorld filled)) = 2"
    by (simp add: filled_def)
  from T have "fst (getWorkerPort movedWorld filled) =
      (case settingsFile movedWorld of Inl e \<Rightarrow> Inl e
       | Inr st' \<Rightarrow> Inr (parseInt (CLAUDE_MEM_WORKER_PORT st')))"
    by blast
  then have d: "fst (getWorkerPort movedWorld filled) = Inr (Num 40000)"
    by (simp add: moved parseInt_40000)
  from fill a b c d show ?thesis by blast
qed

text \<open>
  C10: with no override in the environment and an empty or expired cache, a settings file
  whose \<open>CLAUDE_MEM_WORKER_PORT\<close> does not parse makes \<open>getWorkerPort\<close> return \<open>NaN\<close>
  (it does not throw) and store \<open>NaN\<close> with the clock reading; a later call within the
  TTL returns the stored \<open>NaN\<close> and reads nothing.
\<close>

theorem getWorkerPort_caches_NaN:
  assumes "map_of (env w0) ''CLAUDE_MEM_WORKER_PORT'' = None"
    and "map_of (env w1) ''CLAUDE_MEM_WORKER_PORT'' = None"
    and miss: "cachedPort s0 = None \<or> CACHE_TTL \<le> now w0 - cacheTime s0"
    and load: "settingsFile w0 = Inr st"
    and nan: "parseInt (CLAUDE_MEM_WORKER_PORT st) = NaN"
    and "now w1 - now w0 < CACHE_TTL"
  shows "getWorkerPort w0 s0 =
           (Inr NaN, s0\<lparr>fileReads := Suc (fileReads s0), cachedPort := Some NaN, cacheTime := now w0\<rparr>) \<and>
         getWorkerPort w1 (snd (getWorkerPort w0 s0)) = (Inr NaN, snd (getWorkerPort w0 s0))"
proof -
  have e: "envOverride w0 = None" "envOverride w1 = None"
    using assms(1,2) by (simp_all add: envOverride_unset)
  have "getWorkerPort w0 s0 = reloadPort w0 s0"
    using e(1) miss by (rule getWorkerPort_miss)
  then have first: "getWorkerPort w0 s0 =
      (Inr NaN, s0\<lparr>fileReads := Suc (fileReads s0), cachedPort := Some NaN, cacheTime := now w0\<rparr>)"
    using load nan by (simp add: reloadPort_ok)
  have "getWorkerPort w1 (snd (getWorkerPort w0 s0)) = (Inr NaN, snd (getWorkerPort w0 s0))"
    using e(2) assms(6) by (simp add: first getWorkerPort_hit)
  with first show ?thesis by simp
qed

theorem getWorkerPort_caches_NaN_witness:
  "getWorkerPort badSettings initial =
     (Inr NaN, initial\<lparr>fileReads := 1, cachedPort := Some NaN, cacheTime := 1000\<rparr>) \<and>
   getWorkerPort (exampleWorld\<lparr>now := 50000\<rparr>)
       (initial\<lparr>fileReads := 1, cachedPort := Some NaN, cacheTime := 1000\<rparr>) =
     (Inr NaN, initial\<lparr>fileReads := 1, cachedPort := Some NaN, cacheTime := 1000\<rparr>)"
proof -
  have e: "map_of (env badSettings) ''CLAUDE_MEM_WORKER_PORT'' = None"
      "map_of (env (exampleWorld\<lparr>now := 50000\<rparr>)) ''CLAUDE_MEM_WORKER_PORT'' = None"
    by (simp_all add: exampleWorld_def badSettings_def)
  have miss: "cachedPort initial = None \<or> CACHE_TTL \<le> now badSettings - cacheTime initial"
    by (simp add: initial_def)
  have load: "settingsFile badSettings =
      Inr \<lparr>CLAUDE_MEM_WORKER_PORT = ''auto'', CLAUDE_MEM_WORKER_HOST = ''127.0.0.1''\<rparr>"
    by (simp add: badSettings_def)
  have nan: "parseInt (CLAUDE_MEM_WORKER_PORT
      \<lparr>CLAUDE_MEM_WORKER_PORT = ''auto'', CLAUDE_MEM_WORKER_HOST = ''127.0.0.1''\<rparr>) = NaN"
    by (simp add: parseInt_auto)
  have t: "now (exampleWorld\<lparr>now := 50000\<rparr>) - now badSettings < CACHE_TTL"
    by (simp add: exampleWorld_def badSettings_def CACHE_TTL_def)
  have n: "now badSettings = 1000" "fileReads initial = 0"
    by (simp_all add: badSettings_def exampleWorld_def initial_def)
  note T = getWorkerPort_caches_NaN [OF e miss load nan t]
  from T have a: "getWorkerPort badSettings initial =
      (Inr NaN, initial\<lparr>fileReads := 1, cachedPort := Some NaN, cacheTime := 1000\<rparr>)"
    by (simp add: n)
  from T have "getWorkerPort (exampleWorld\<lparr>now := 50000\<rparr>) (snd (getWorkerPort badSettings initial))
      = (Inr NaN, snd (getWorkerPort badSettings initial))"
    by blast
  then have b: "getWorkerPort (exampleWorld\<lparr>now := 50000\<rparr>)
       (initial\<lparr>fileReads := 1, cachedPort := Some NaN, cacheTime := 1000\<rparr>) =
     (Inr NaN, initial\<lparr>fileReads := 1, cachedPort := Some NaN, cacheTime := 1000\<rparr>)"
    by (simp add: a)
  from a b show ?thesis by blast
qed

section \<open>Properties of the host cache\<close>

lemma getWorkerHost_cached: "cachedHost s = Some h \<Longrightarrow> getWorkerHost w s = (Inr h, s)"
  by (simp add: getWorkerHost_def)

lemma getWorkerHost_Inr_cached: "getWorkerHost w s = (Inr h, s1) \<Longrightarrow> cachedHost s1 = Some h"
  by (auto simp: getWorkerHost_def loadFromFile_def Let_def split: option.splits sum.splits)

lemma getWorkerHost_calls_cached:
  "cachedHost s = Some h \<Longrightarrow> getWorkerHost_calls ws s = (replicate (length ws) (Inr h), s)"
  by (induction ws) (simp_all add: getWorkerHost_cached)

lemma getWorkerHost_reads: "fileReads (snd (getWorkerHost w s)) \<le> fileReads s + 1"
  by (simp add: getWorkerHost_def loadFromFile_def Let_def split: option.splits sum.splits)

lemma clearPortCache_forces_read:
  "fileReads (snd (getWorkerHost w (clearPortCache s))) = Suc (fileReads s) \<and>
   fileReads (snd (reloadPort w (clearPortCache s))) = Suc (fileReads s)"
  by (simp add: getWorkerHost_def reloadPort_def clearPortCache_def loadFromFile_def
      split: sum.splits)

text \<open>
  C8, as the claim states it, fails: with \<open>CLAUDE_MEM_WORKER_PORT\<close> and
  \<open>CLAUDE_MEM_WORKER_HOST\<close> both set in the environment, \<open>getWorkerPort\<close> returns the
  port of the environment without a read, while \<open>getWorkerHost\<close> reads the settings file
  and returns its host, not the one of the environment.
\<close>

theorem getWorkerHost_env_counterexample:
  "getWorkerPort overridden initial = (Inr (Num 40123), initial) \<and>
   getWorkerHost overridden initial =
     (Inr ''127.0.0.1'', initial\<lparr>fileReads := 1, cachedHost := Some ''127.0.0.1''\<rparr>) \<and>
   map_of (env overridden) ''CLAUDE_MEM_WORKER_HOST'' = Some ''10.0.0.5''"
  by (simp add: getWorkerPort_def envOverride_def isNaN_def parseInt_40123 getWorkerHost_def
      loadFromFile_def overridden_def exampleWorld_def initial_def)

text \<open>
  C8, amended: \<open>getWorkerHost\<close> consults no environment variable. With a host in the
  cache it returns that host and leaves the state as it is; with none it reads the settings
  file once and, if the read succeeds, stores and returns its \<open>CLAUDE_MEM_WORKER_HOST\<close>.
  Once a call has returned a host, at the cost of at most one read, every later call
  returns that host and leaves the state unchanged (so it reads nothing), in any worlds,
  hence at any later time, as long as \<open>clearPortCache\<close> is not called in between.
\<close>

theorem getWorkerHost_cached_for_life:
  "(cachedHost s = Some c \<longrightarrow> getWorkerHost w s = (Inr c, s)) \<and>
   (cachedHost s = None \<longrightarrow>
      getWorkerHost w s =
        (case settingsFile w of
           Inl err \<Rightarrow> (Inl err, s\<lparr>fileReads := Suc (fileReads s)\<rparr>)
         | Inr st \<Rightarrow>
             (Inr (CLAUDE_MEM_WORKER_HOST st),
              s\<lparr>fileReads := Suc (fileReads s),
                cachedHost := Some (CLAUDE_MEM_WORKER_HOST st)\<rparr>))) \<and>
   (getWorkerHost w s = (Inr h, s1) \<longrightarrow>
      getWorkerHost (w\<lparr>env := e\<rparr>) s = (Inr h, s1) \<and>
      fileReads s1 \<le> fileReads s + 1 \<and>
      getWorkerHost_calls ws s1 = (replicate (length ws) (Inr h), s1))"
proof (intro conjI impI)
  assume "cachedHost s = Some c"
  then show "getWorkerHost w s = (Inr c, s)" by (rule getWorkerHost_cached)
next
  assume "cachedHost s = None"
  then show "getWorkerHost w s =
        (case settingsFile w of
           Inl err \<Rightarrow> (Inl err, s\<lparr>fileReads := Suc (fileReads s)\<rparr>)
         | Inr st \<Rightarrow>
             (Inr (CLAUDE_MEM_WORKER_HOST st),
              s\<lparr>fileReads := Suc (fileReads s),
                cachedHost := Some (CLAUDE_MEM_WORKER_HOST st)\<rparr>))"
    by (simp add: getWorkerHost_def loadFromFile_def split: sum.splits)
next
  assume a: "getWorkerHost w s = (Inr h, s1)"
  have "getWorkerHost (w\<lparr>env := e\<rparr>) s = getWorkerHost w s"
    by (simp add: getWorkerHost_def loadFromFile_def split: option.splits sum.splits)
  then show "getWorkerHost (w\<lparr>env := e\<rparr>) s = (Inr h, s1)" using a by simp
  show "fileReads s1 \<le> fileReads s + 1"
    using getWorkerHost_reads [of w s] a by simp
  show "getWorkerHost_calls ws s1 = (replicate (length ws) (Inr h), s1)"
    using a by (intro getWorkerHost_calls_cached getWorkerHost_Inr_cached)
qed

theorem getWorkerHost_cached_for_life_witness:
  "getWorkerHost exampleWorld initial =
     (Inr ''127.0.0.1'', initial\<lparr>fileReads := 1, cachedHost := Some ''127.0.0.1''\<rparr>) \<and>
   getWorkerHost movedWorld (initial\<lparr>fileReads := 1, cachedHost := Some ''127.0.0.1''\<rparr>) =
     (Inr ''127.0.0.1'', initial\<lparr>fileReads := 1, cachedHost := Some ''127.0.0.1''\<rparr>) \<and>
   getWorkerHost_calls [movedWorld, overridden]
       (initial\<lparr>fileReads := 1, cachedHost := Some ''127.0.0.1''\<rparr>) =
     ([Inr ''127.0.0.1'', Inr ''127.0.0.1''],
      initial\<lparr>fileReads := 1, cachedHost := Some ''127.0.0.1''\<rparr>)"
proof -
  let ?s1 = "initial\<lparr>fileReads := 1, cachedHost := Some ''127.0.0.1''\<rparr>"
  have none: "cachedHost initial = None" "fileReads initial = 0"
    by (simp_all add: initial_def)
  have st: "settingsFile exampleWorld =
      Inr \<lparr>CLAUDE_MEM_WORKER_PORT = ''37777'', CLAUDE_MEM_WORKER_HOST = ''127.0.0.1''\<rparr>"
    by (simp add: exampleWorld_def)
  have some: "cachedHost ?s1 = Some ''127.0.0.1''"
    by simp
  from getWorkerHost_cached_for_life [of initial _ exampleWorld] none
  have h: "getWorkerHost exampleWorld initial = (Inr ''127.0.0.1'', ?s1)"
    by (simp add: st)
  from getWorkerHost_cached_for_life [of ?s1 "''127.0.0.1''" movedWorld] some
  have c: "getWorkerHost movedWorld ?s1 = (Inr ''127.0.0.1'', ?s1)"
    by blast
  from getWorkerHost_cached_for_life [of initial _ exampleWorld "''127.0.0.1''" ?s1 "[]"
      "[movedWorld, overridden]"] h
  have r: "getWorkerHost_calls [movedWorld, overridden] ?s1 =
      (replicate (length [movedWorld, overridden]) (Inr ''127.0.0.1''), ?s1)"
    by blast
  from h c r show ?thesis by simp
qed

section \<open>Properties of the port allocator\<close>

lemmas fap_simps = findAvailablePort_from.simps

declare findAvailablePort_from.simps [simp del]

lemma findAvailablePort_from_none_free:
  "(\<forall>q. basePort + i \<le> q \<and> q < basePort + maxAttempts \<longrightarrow> portFree w q host = Inr False) \<Longrightarrow>
   findAvailablePort_from w basePort host maxAttempts i s =
     (Inr basePort, s\<lparr>probes := probes s @ [basePort + i .. basePort + maxAttempts - 1]\<rparr>)"
proof (induction w basePort host maxAttempts i s rule: findAvailablePort_from.induct)
  case (1 w basePort host maxAttempts i s)
  show ?case
  proof (cases "i < maxAttempts")
    case False
    then show ?thesis by (subst fap_simps) simp
  next
    case True
    have here: "portFree w (basePort + i) host = Inr False"
      using "1.prems" True by simp
    have rest: "\<forall>q. basePort + (i + 1) \<le> q \<and> q < basePort + maxAttempts \<longrightarrow>
        portFree w q host = Inr False"
      using "1.prems" by simp
    have probe: "isPortAvailableAtTcpLevel w (basePort + i) host s =
        (Inr False, s\<lparr>probes := probes s @ [basePort + i]\<rparr>)"
      by (simp add: isPortAvailableAtTcpLevel_def here)
    have "findAvailablePort_from w basePort host maxAttempts (i + 1)
            (s\<lparr>probes := probes s @ [basePort + i]\<rparr>) =
          (Inr basePort, s\<lparr>probes := probes s @ [basePort + i] @
             [basePort + (i + 1) .. basePort + maxAttempts - 1]\<rparr>)"
      using "1.IH" [OF True refl probe [symmetric] refl _ rest] by simp
    moreover have "[basePort + i .. basePort + maxAttempts - 1] =
        (basePort + i) # [basePort + (i + 1) .. basePort + maxAttempts - 1]"
      using True by (simp add: upto_rec1 add.assoc)
    ultimately show ?thesis
      using True by (subst fap_simps) (simp add: Let_def probe)
  qed
qed


lemma findAvailablePort_from_first_free:
  "i \<le> k \<Longrightarrow> k < maxAttempts \<Longrightarrow> portFree w (basePort + k) host = Inr True \<Longrightarrow>
   (\<forall>q. basePort + i \<le> q \<and> q < basePort + k \<longrightarrow> portFree w q host = Inr False) \<Longrightarrow>
   findAvailablePort_from w basePort host maxAttempts i s =
     (Inr (basePort + k),
      (if k > 0 then warnFallback basePort (basePort + k) else id)
        (s\<lparr>probes := probes s @ [basePort + i .. basePort + k]\<rparr>))"
proof (induction w basePort host maxAttempts i s rule: findAvailablePort_from.induct)
  case (1 w basePort host maxAttempts i s)
  have lt: "i < maxAttempts" using "1.prems" by simp
  show ?case
  proof (cases "i = k")
    case True
    have probe: "isPortAvailableAtTcpLevel w (basePort + i) host s =
        (Inr True, s\<lparr>probes := probes s @ [basePort + i]\<rparr>)"
      using "1.prems" True by (simp add: isPortAvailableAtTcpLevel_def)
    have k: "k = i" using True by simp
    show ?thesis
      unfolding k using lt
      by (subst fap_simps) (simp add: Let_def probe warnFallback_def)
  next
    case False
    then have ik: "i < k" using "1.prems" by simp
    have here: "portFree w (basePort + i) host = Inr False"
      using "1.prems" ik by simp
    have rest: "\<forall>q. basePort + (i + 1) \<le> q \<and> q < basePort + k \<longrightarrow>
        portFree w q host = Inr False"
      using "1.prems" by simp
    have probe: "isPortAvailableAtTcpLevel w (basePort + i) host s =
        (Inr False, s\<lparr>probes := probes s @ [basePort + i]\<rparr>)"
      by (simp add: isPortAvailableAtTcpLevel_def here)
    have ik': "i + 1 \<le> k" using ik by simp
    have "findAvailablePort_from w basePort host maxAttempts (i + 1)
            (s\<lparr>probes := probes s @ [basePort + i]\<rparr>) =
          (Inr (basePort + k),
           (if k > 0 then warnFallback basePort (basePort + k) else id)
             (s\<lparr>probes := probes s @ [basePort + i] @ [basePort + (i + 1) .. basePort + k]\<rparr>))"
      using "1.IH" [OF lt refl probe [symmetric] refl _ ik' "1.prems"(2,3) rest] by simp
    moreover have "[basePort + i .. basePort + k] = (basePort + i) # [basePort + (i + 1) .. basePort + k]"
      using ik by (simp add: upto_rec1 add.assoc)
    ultimately show ?thesis
      using lt by (subst fap_simps) (simp add: Let_def probe)
  qed
qed

lemma findAvailablePort_from_order:
  "\<exists>n. probes (snd (findAvailablePort_from w basePort host maxAttempts i s)) =
         probes s @ [basePort + i .. basePort + n - 1] \<and> n \<le> max i maxAttempts"
proof (induction w basePort host maxAttempts i s rule: findAvailablePort_from.induct)
  case (1 w basePort host maxAttempts i s)
  show ?case
  proof (cases "i < maxAttempts")
    case False
    then have "probes (snd (findAvailablePort_from w basePort host maxAttempts i s)) =
         probes s @ [basePort + i .. basePort + i - 1] \<and> i \<le> max i maxAttempts"
      by (subst fap_simps) simp
    then show ?thesis by blast
  next
    case True
    let ?s' = "s\<lparr>probes := probes s @ [basePort + i]\<rparr>"
    have probe: "isPortAvailableAtTcpLevel w (basePort + i) host s = (portFree w (basePort + i) host, ?s')"
      by (simp add: isPortAvailableAtTcpLevel_def)
    show ?thesis
    proof (cases "portFree w (basePort + i) host = Inr False")
      case False
      then have "probes (snd (findAvailablePort_from w basePort host maxAttempts i s)) =
         probes s @ [basePort + i .. basePort + (i + 1) - 1] \<and> i + 1 \<le> max i maxAttempts"
        using True
        by (subst fap_simps) (simp add: Let_def probe logger_def warnFallback_def
            split: sum.splits)
      then show ?thesis by blast
    next
      case f: True
      have probeF: "isPortAvailableAtTcpLevel w (basePort + i) host s = (Inr False, ?s')"
        using probe f by simp
      obtain n where n: "probes (snd (findAvailablePort_from w basePort host maxAttempts (i + 1) ?s')) =
          probes ?s' @ [basePort + (i + 1) .. basePort + n - 1]" "n \<le> max (i + 1) maxAttempts"
        using "1.IH" [OF True refl probeF [symmetric] refl] by auto
      have "findAvailablePort_from w basePort host maxAttempts i s =
          findAvailablePort_from w basePort host maxAttempts (i + 1) ?s'"
        using True f by (subst fap_simps) (simp add: Let_def probe)
      moreover have "(basePort + i) # [basePort + (i + 1) .. basePort + max n (i + 1) - 1] =
          [basePort + i .. basePort + max n (i + 1) - 1]"
        by (simp add: upto_rec1 [of "basePort + i"] add.assoc)
      moreover have "[basePort + (i + 1) .. basePort + n - 1] =
          [basePort + (i + 1) .. basePort + max n (i + 1) - 1] "
        by (cases "n \<le> i + 1") (simp_all add: max_def)
      ultimately have "probes (snd (findAvailablePort_from w basePort host maxAttempts i s)) =
          probes s @ [basePort + i .. basePort + max n (i + 1) - 1] \<and>
          max n (i + 1) \<le> max i maxAttempts"
        using n True by simp
      then show ?thesis by blast
    qed
  qed
qed


lemma showInt_37777: "showInt 37777 = ''37777''"
  by (simp add: showInt_def showNat.simps char_of_eq_iff)

lemma showInt_37779: "showInt 37779 = ''37779''"
  by (simp add: showInt_def showNat.simps char_of_eq_iff)

text \<open>
  C6: \<open>findAvailablePort\<close> probes \<open>basePort\<close>, \<open>basePort + 1\<close>, ... in that order and never
  more than \<open>maxAttempts\<close> ports. If \<open>p\<close> is the first candidate that the TCP probe finds
  free, the call returns \<open>p\<close> and has probed exactly the ports from \<open>basePort\<close> to \<open>p\<close>.
  If the probe finds every candidate taken, the call returns \<open>basePort\<close> (it does not
  throw) after probing all of them.
\<close>

theorem findAvailablePort_first_free:
  "(\<exists>n. n \<le> max 0 maxAttempts \<and>
        probes (snd (findAvailablePort w basePort host maxAttempts s)) =
          probes s @ [basePort .. basePort + n - 1]) \<and>
   (basePort \<le> p \<and> p < basePort + maxAttempts \<and> portFree w p host = Inr True \<and>
    (\<forall>q. basePort \<le> q \<and> q < p \<longrightarrow> portFree w q host = Inr False) \<longrightarrow>
      findAvailablePort w basePort host maxAttempts s =
        (Inr p, (if basePort < p then warnFallback basePort p else id)
                  (s\<lparr>probes := probes s @ [basePort .. p]\<rparr>))) \<and>
   ((\<forall>q. basePort \<le> q \<and> q < basePort + maxAttempts \<longrightarrow> portFree w q host = Inr False) \<longrightarrow>
      findAvailablePort w basePort host maxAttempts s =
        (Inr basePort, s\<lparr>probes := probes s @ [basePort .. basePort + maxAttempts - 1]\<rparr>))"
proof (intro conjI impI)
  show "\<exists>n. n \<le> max 0 maxAttempts \<and>
        probes (snd (findAvailablePort w basePort host maxAttempts s)) =
          probes s @ [basePort .. basePort + n - 1]"
    using findAvailablePort_from_order [of w basePort host maxAttempts 0 s]
    by (auto simp: findAvailablePort_def)
next
  assume a: "basePort \<le> p \<and> p < basePort + maxAttempts \<and> portFree w p host = Inr True \<and>
    (\<forall>q. basePort \<le> q \<and> q < p \<longrightarrow> portFree w q host = Inr False)"
  define k where "k = p - basePort"
  have p: "p = basePort + k" by (simp add: k_def)
  have "0 \<le> k" "k < maxAttempts" "portFree w (basePort + k) host = Inr True"
    "\<forall>q. basePort + 0 \<le> q \<and> q < basePort + k \<longrightarrow> portFree w q host = Inr False"
    using a by (simp_all add: k_def)
  from findAvailablePort_from_first_free [OF this, of s]
  show "findAvailablePort w basePort host maxAttempts s =
        (Inr p, (if basePort < p then warnFallback basePort p else id)
                  (s\<lparr>probes := probes s @ [basePort .. p]\<rparr>))"
    by (simp add: findAvailablePort_def p)
next
  assume "\<forall>q. basePort \<le> q \<and> q < basePort + maxAttempts \<longrightarrow> portFree w q host = Inr False"
  then have "\<forall>q. basePort + 0 \<le> q \<and> q < basePort + maxAttempts \<longrightarrow> portFree w q host = Inr False"
    by simp
  from findAvailablePort_from_none_free [OF this, of s]
  show "findAvailablePort w basePort host maxAttempts s =
        (Inr basePort, s\<lparr>probes := probes s @ [basePort .. basePort + maxAttempts - 1]\<rparr>)"
    by (simp add: findAvailablePort_def)
qed

theorem findAvailablePort_first_free_witness:
  "findAvailablePort exampleWorld 37777 ''127.0.0.1'' 10 initial =
     (Inr 37779, initial\<lparr>probes := [37777, 37778, 37779],
        logged := [Log Warn ''SYSTEM'' ''Port 37777 is occupied, using fallback port 37779'' []]\<rparr>) \<and>
   findAvailablePort allTaken 37777 ''127.0.0.1'' 10 initial =
     (Inr 37777, initial\<lparr>probes :=
        [37777, 37778, 37779, 37780, 37781, 37782, 37783, 37784, 37785, 37786]\<rparr>)"
proof -
  have free: "37777 \<le> (37779::int) \<and> (37779::int) < 37777 + 10 \<and>
      portFree exampleWorld 37779 ''127.0.0.1'' = Inr True \<and>
      (\<forall>q. 37777 \<le> q \<and> q < 37779 \<longrightarrow> portFree exampleWorld q ''127.0.0.1'' = Inr False)"
    by (simp add: exampleWorld_def)
  have taken: "\<forall>q. 37777 \<le> q \<and> q < 37777 + 10 \<longrightarrow> portFree allTaken q ''127.0.0.1'' = Inr False"
    by (simp add: allTaken_def)
  have u1: "[37777 .. 37779] = [37777, 37778, 37779 :: int]"
    by (simp add: upto.simps)
  have u2: "[37777 .. 37777 + 10 - 1] =
      [37777, 37778, 37779, 37780, 37781, 37782, 37783, 37784, 37785, 37786 :: int]"
    by (simp add: upto.simps)
  have a: "findAvailablePort exampleWorld 37777 ''127.0.0.1'' 10 initial =
     (Inr 37779, initial\<lparr>probes := [37777, 37778, 37779],
        logged := [Log Warn ''SYSTEM'' ''Port 37777 is occupied, using fallback port 37779'' []]\<rparr>)"
    using findAvailablePort_first_free [of 10 exampleWorld 37777 "''127.0.0.1''" initial 37779] free
    by (simp add: u1 warnFallback_def logger_def showInt_37777 showInt_37779 initial_def)
  have b: "findAvailablePort allTaken 37777 ''127.0.0.1'' 10 initial =
     (Inr 37777, initial\<lparr>probes :=
        [37777, 37778, 37779, 37780, 37781, 37782, 37783, 37784, 37785, 37786]\<rparr>)"
    using findAvailablePort_first_free [of 10 allTaken 37777 "''127.0.0.1''" initial 0] taken
    by (simp add: u2 initial_def)
  from a b show ?thesis by blast
qed

section \<open>Properties of the lifecycle hook handlers\<close>

lemma getWorkerPort_keeps:
  "getWorkerPort w s = (r, s1) \<Longrightarrow>
   requests s1 = requests s \<and> stdout s1 = stdout s \<and> stderr s1 = stderr s"
  by (auto simp: getWorkerPort_def reloadPort_def loadFromFile_def
      split: option.splits if_splits sum.splits)

lemma contract_early:
  assumes "handler w s = caught e s1"
    and "requests s1 = requests s" "stdout s1 = stdout s" "stderr s1 = stderr s"
    and "\<And>e'. sessionId w = Inl e' \<Longrightarrow> e' = e"
    and "successCode \<noteq> 2"
  shows "hookContract handler successCode line failed w s"
  using assms by (auto simp add: hookContract_def caught_def)

lemma contract_rejected:
  assumes "handler w s = caught e (s1\<lparr>requests := requests s1 @ [(url, i)]\<rparr>)"
    and "requests s1 = requests s" "stdout s1 = stdout s" "stderr s1 = stderr s"
    and "network w url i = Inl e"
    and "sessionId w = Inr sid"
    and "successCode \<noteq> 2"
  shows "hookContract handler successCode line failed w s"
  using assms by (auto simp add: hookContract_def caught_def)

lemma contract_status:
  assumes "handler w s =
      caught (Error (failed @ showNat (status r))) (s1\<lparr>requests := requests s1 @ [(url, i)]\<rparr>)"
    and "requests s1 = requests s" "stdout s1 = stdout s" "stderr s1 = stderr s"
    and "network w url i = Inr r" "\<not> ok r"
    and "sessionId w = Inr sid"
    and "successCode \<noteq> 2"
  shows "hookContract handler successCode line failed w s"
  using assms by (auto simp add: hookContract_def caught_def)

lemma contract_success:
  assumes "handler w s =
      (successCode, s1\<lparr>requests := requests s1 @ [(url, i)], stdout := stdout s1 @ [line]\<rparr>)"
    and "requests s1 = requests s" "stdout s1 = stdout s" "stderr s1 = stderr s"
    and "network w url i = Inr r" "ok r"
    and "sessionId w = Inr sid"
    and "successCode \<noteq> 2"
  shows "hookContract handler successCode line failed w s"
  using assms by (simp add: hookContract_def)


lemma fetchKeepAlive_fetch:
  "fetchKeepAlive w url i s =
     fetch w url (i\<lparr>agent := Some (if startsWith url ''https://'' then keepAliveHttpsAgent else keepAliveAgent)\<rparr>) s"
  by (simp add: fetchKeepAlive_def Let_def)

lemma handleStop_contract:
  "hookContract handleStop 0 (stoppedLine ''Session stopped'') ''Failed to prepare session: '' w s"
proof (cases "sessionId w")
  case (Inl e)
  then have "handleStop w s = caught e s" by (simp add: handleStop_def)
  then show ?thesis using Inl by (intro contract_early [where e = e and ?s1.0 = s]) simp_all
next
  case sid: (Inr sid)
  obtain rp s1 where p: "getWorkerPort w s = (rp, s1)" by (cases "getWorkerPort w s")
  note k = getWorkerPort_keeps [OF p]
  show ?thesis
  proof (cases rp)
    case (Inl e)
    then have "handleStop w s = caught e s1" using sid p by (simp add: handleStop_def)
    then show ?thesis using sid k by (intro contract_early [where e = e and ?s1.0 = s1]) simp_all
  next
    case port: (Inr port)
    let ?url = "sessionUrl port sid ''prepare''" and ?i = "post (JObj [])"
    let ?s2 = "s1\<lparr>requests := requests s1 @ [(?url, ?i)]\<rparr>"
    show ?thesis
    proof (cases "network w ?url ?i")
      case (Inl e)
      then have h: "handleStop w s = caught e ?s2"
        using sid p port by (simp add: handleStop_def fetch_def)
      show ?thesis by (rule contract_rejected [where handler = handleStop and ?s1.0 = s1, OF h _ _ _ Inl sid]) (simp_all add: k)
    next
      case r: (Inr r)
      show ?thesis
      proof (cases "ok r")
        case False
        then have h: "handleStop w s = caught (Error (''Failed to prepare session: '' @ showNat (status r))) ?s2"
          using sid p port r by (simp add: handleStop_def fetch_def)
        show ?thesis by (rule contract_status [where handler = handleStop and ?s1.0 = s1, OF h _ _ _ r False sid]) (simp_all add: k)
      next
        case True
        then have h: "handleStop w s = (0, s1\<lparr>requests := requests s1 @ [(?url, ?i)],
            stdout := stdout s1 @ [stoppedLine ''Session stopped'']\<rparr>)"
          using sid p port r by (simp add: handleStop_def fetch_def)
        show ?thesis by (rule contract_success [where handler = handleStop and ?s1.0 = s1, OF h _ _ _ r True sid]) (simp_all add: k)
      qed
    qed
  qed
qed

lemma handleSessionEnd_contract:
  "hookContract handleSessionEnd 0 (stoppedLine ''Session compressed and stored'')
     ''Failed to compress session: '' w s"
proof (cases "sessionId w")
  case (Inl e)
  then have "handleSessionEnd w s = caught e s" by (simp add: handleSessionEnd_def)
  then show ?thesis using Inl by (intro contract_early [where e = e and ?s1.0 = s]) simp_all
next
  case sid: (Inr sid)
  obtain rp s1 where p: "getWorkerPort w s = (rp, s1)" by (cases "getWorkerPort w s")
  note k = getWorkerPort_keeps [OF p]
  show ?thesis
  proof (cases rp)
    case (Inl e)
    then have "handleSessionEnd w s = caught e s1" using sid p by (simp add: handleSessionEnd_def)
    then show ?thesis using sid k by (intro contract_early [where e = e and ?s1.0 = s1]) simp_all
  next
    case port: (Inr port)
    let ?url = "sessionUrl port sid ''compress''" and ?i = "post (JObj [])"
    let ?s2 = "s1\<lparr>requests := requests s1 @ [(?url, ?i)]\<rparr>"
    show ?thesis
    proof (cases "network w ?url ?i")
      case (Inl e)
      then have h: "handleSessionEnd w s = caught e ?s2"
        using sid p port by (simp add: handleSessionEnd_def fetch_def)
      show ?thesis by (rule contract_rejected [where handler = handleSessionEnd and ?s1.0 = s1, OF h _ _ _ Inl sid]) (simp_all add: k)
    next
      case r: (Inr r)
      show ?thesis
      proof (cases "ok r")
        case False
        then have h: "handleSessionEnd w s =
            caught (Error (''Failed to compress session: '' @ showNat (status r))) ?s2"
          using sid p port r by (simp add: handleSessionEnd_def fetch_def)
        show ?thesis by (rule contract_status [where handler = handleSessionEnd and ?s1.0 = s1, OF h _ _ _ r False sid]) (simp_all add: k)
      next
        case True
        then have h: "handleSessionEnd w s = (0, s1\<lparr>requests := requests s1 @ [(?url, ?i)],
            stdout := stdout s1 @ [stoppedLine ''Session compressed and stored'']\<rparr>)"
          using sid p port r by (simp add: handleSessionEnd_def fetch_def)
        show ?thesis by (rule contract_success [where handler = handleSessionEnd and ?s1.0 = s1, OF h _ _ _ r True sid]) (simp_all add: k)
      qed
    qed
  qed
qed

lemma handlePostToolUse_contract:
  "hookContract handlePostToolUse 3 continueLine ''Failed to save observation: '' w s"
proof (cases "sessionId w")
  case (Inl e)
  then have "handlePostToolUse w s = caught e s" by (simp add: handlePostToolUse_def)
  then show ?thesis using Inl by (intro contract_early [where e = e and ?s1.0 = s]) simp_all
next
  case sid: (Inr sid)
  show ?thesis
  proof (cases "stdin w")
    case (Inl e)
    then have "handlePostToolUse w s = caught e s" using sid by (simp add: handlePostToolUse_def)
    then show ?thesis using sid by (intro contract_early [where e = e and ?s1.0 = s]) simp_all
  next
    case input: (Inr input)
    obtain rp s1 where p: "getWorkerPort w s = (rp, s1)" by (cases "getWorkerPort w s")
    note k = getWorkerPort_keeps [OF p]
    show ?thesis
    proof (cases rp)
      case (Inl e)
      then have "handlePostToolUse w s = caught e s1"
        using sid input p by (simp add: handlePostToolUse_def)
      then show ?thesis using sid k by (intro contract_early [where e = e and ?s1.0 = s1]) simp_all
    next
      case port: (Inr port)
      let ?url = "sessionUrl port sid ''observation''" and ?i = "post (single ''observation'' input)"
      let ?s2 = "s1\<lparr>requests := requests s1 @ [(?url, ?i)]\<rparr>"
      show ?thesis
      proof (cases "network w ?url ?i")
        case (Inl e)
        then have h: "handlePostToolUse w s = caught e ?s2"
          using sid input p port by (simp add: handlePostToolUse_def fetch_def)
        show ?thesis by (rule contract_rejected [where handler = handlePostToolUse and ?s1.0 = s1, OF h _ _ _ Inl sid]) (simp_all add: k)
      next
        case r: (Inr r)
        show ?thesis
        proof (cases "ok r")
          case False
          then have h: "handlePostToolUse w s =
              caught (Error (''Failed to save observation: '' @ showNat (status r))) ?s2"
            using sid input p port r by (simp add: handlePostToolUse_def fetch_def)
          show ?thesis by (rule contract_status [where handler = handlePostToolUse and ?s1.0 = s1, OF h _ _ _ r False sid]) (simp_all add: k)
        next
          case True
          then have h: "handlePostToolUse w s = (3, s1\<lparr>requests := requests s1 @ [(?url, ?i)],
              stdout := stdout s1 @ [continueLine]\<rparr>)"
            using sid input p port r by (simp add: handlePostToolUse_def fetch_def)
          show ?thesis by (rule contract_success [where handler = handlePostToolUse and ?s1.0 = s1, OF h _ _ _ r True sid]) (simp_all add: k)
        qed
      qed
    qed
  qed
qed

lemma handleUserPromptSubmit_contract:
  "hookContract handleUserPromptSubmit 3 continueLine ''Failed to save prompt: '' w s"
proof (cases "sessionId w")
  case (Inl e)
  then have "handleUserPromptSubmit w s = caught e s" by (simp add: handleUserPromptSubmit_def)
  then show ?thesis using Inl by (intro contract_early [where e = e and ?s1.0 = s]) simp_all
next
  case sid: (Inr sid)
  show ?thesis
  proof (cases "stdin w")
    case (Inl e)
    then have "handleUserPromptSubmit w s = caught e s"
      using sid by (simp add: handleUserPromptSubmit_def)
    then show ?thesis using sid by (intro contract_early [where e = e and ?s1.0 = s]) simp_all
  next
    case input: (Inr input)
    obtain rp s1 where p: "getWorkerPort w s = (rp, s1)" by (cases "getWorkerPort w s")
    note k = getWorkerPort_keeps [OF p]
    show ?thesis
    proof (cases rp)
      case (Inl e)
      then have "handleUserPromptSubmit w s = caught e s1"
        using sid input p by (simp add: handleUserPromptSubmit_def)
      then show ?thesis using sid k by (intro contract_early [where e = e and ?s1.0 = s1]) simp_all
    next
      case port: (Inr port)
      show ?thesis
      proof (cases "promptOf input")
        case (Inl e)
        then have "handleUserPromptSubmit w s = caught e s1"
          using sid input p port by (simp add: handleUserPromptSubmit_def)
        then show ?thesis using sid k by (intro contract_early [where e = e and ?s1.0 = s1]) simp_all
      next
        case prompt: (Inr prompt)
        let ?url = "sessionUrl port sid ''prompt''"
        let ?i = "(post (single ''prompt'' prompt))\<lparr>agent :=
          Some (if startsWith ?url ''https://'' then keepAliveHttpsAgent else keepAliveAgent)\<rparr>"
        let ?s2 = "s1\<lparr>requests := requests s1 @ [(?url, ?i)]\<rparr>"
        show ?thesis
        proof (cases "network w ?url ?i")
          case (Inl e)
          then have h: "handleUserPromptSubmit w s = caught e ?s2"
            using sid input p port prompt
            by (simp add: handleUserPromptSubmit_def fetchKeepAlive_fetch fetch_def)
          show ?thesis by (rule contract_rejected [where handler = handleUserPromptSubmit and ?s1.0 = s1, OF h _ _ _ Inl sid]) (simp_all add: k)
        next
          case r: (Inr r)
          show ?thesis
          proof (cases "ok r")
            case False
            then have h: "handleUserPromptSubmit w s =
                caught (Error (''Failed to save prompt: '' @ showNat (status r))) ?s2"
              using sid input p port prompt r
              by (simp add: handleUserPromptSubmit_def fetchKeepAlive_fetch fetch_def)
            show ?thesis by (rule contract_status [where handler = handleUserPromptSubmit and ?s1.0 = s1, OF h _ _ _ r False sid]) (simp_all add: k)
          next
            case True
            then have h: "handleUserPromptSubmit w s = (3, s1\<lparr>requests := requests s1 @ [(?url, ?i)],
                stdout := stdout s1 @ [continueLine]\<rparr>)"
              using sid input p port prompt r
              by (simp add: handleUserPromptSubmit_def fetchKeepAlive_fetch fetch_def)
            show ?thesis by (rule contract_success [where handler = handleUserPromptSubmit and ?s1.0 = s1, OF h _ _ _ r True sid]) (simp_all add: k)
          qed
        qed
      qed
    qed
  qed
qed


lemma port_example: "getWorkerPort (exampleWorld\<lparr>network := n\<rparr>) initial =
    (Inr (Num 37777), initial\<lparr>fileReads := 1, cachedPort := Some (Num 37777), cacheTime := 1000\<rparr>)"
  by (simp add: getWorkerPort_def envOverride_def reloadPort_def loadFromFile_def
      exampleWorld_def initial_def CACHE_TTL_def parseInt_37777)

lemma showNat_500: "showNat 500 = ''500''"
  by (simp add: showNat.simps char_of_eq_iff)

lemma accepting_fields:
  "sessionId accepting = Inr ''s1''"
  "stdin accepting = Inr (Some (JObj [(''prompt'', JStr ''hi'')]))"
  "network accepting url i = Inr \<lparr>status = 200, jsonBody = Inr (JObj [])\<rparr>"
  "getWorkerPort accepting initial =
    (Inr (Num 37777), initial\<lparr>fileReads := 1, cachedPort := Some (Num 37777), cacheTime := 1000\<rparr>)"
  by (simp_all add: accepting_def port_example) (simp_all add: exampleWorld_def)

lemma failing_fields:
  "sessionId failing = Inr ''s1''"
  "stdin failing = Inr (Some (JObj [(''prompt'', JStr ''hi'')]))"
  "network failing url i = Inr \<lparr>status = 500, jsonBody = Inr (JObj [])\<rparr>"
  "getWorkerPort failing initial =
    (Inr (Num 37777), initial\<lparr>fileReads := 1, cachedPort := Some (Num 37777), cacheTime := 1000\<rparr>)"
  by (simp_all add: failing_def port_example) (simp_all add: exampleWorld_def)

text \<open>
  The stop, session-end, prompt-submit and tool-observation handlers meet the contract in
  every world (so nothing they call can make them throw): 0 for stop and session end, 3 for
  prompt submit and tool observation, exactly when the request was answered with a 2xx
  response, and then the success line is written, which for prompt submit holds
  \<open>continue: true\<close>; otherwise 2, with one line holding the error text on the error
  stream. A non-2xx answer gives the line with the handler's message and the HTTP status.
\<close>

lemma errorLine_text: "getProp (Some (errorLine e)) ''error'' = Inr (Some (JStr (error_text e)))"
  by (simp add: errorLine_def)

lemma sibling_handlers_contract:
  "hookContract handleStop 0 (stoppedLine ''Session stopped'') ''Failed to prepare session: '' w s \<and>
   hookContract handleSessionEnd 0 (stoppedLine ''Session compressed and stored'')
     ''Failed to compress session: '' w s \<and>
   hookContract handleUserPromptSubmit 3 continueLine ''Failed to save prompt: '' w s \<and>
   hookContract handlePostToolUse 3 continueLine ''Failed to save observation: '' w s \<and>
   getProp (Some continueLine) ''continue'' = Inr (Some (JBool True))"
proof -
  have "getProp (Some continueLine) ''continue'' = Inr (Some (JBool True))"
    by (simp add: continueLine_def)
  then show ?thesis
    using handleStop_contract handleSessionEnd_contract handleUserPromptSubmit_contract
      handlePostToolUse_contract
    by blast
qed

lemma sibling_handlers_example:
  "fst (handleUserPromptSubmit accepting initial) = 3 \<and>
   stdout (snd (handleUserPromptSubmit accepting initial)) = [continueLine] \<and>
   stderr (snd (handleUserPromptSubmit accepting initial)) = [] \<and>
   fst (handleSessionEnd failing initial) = 2 \<and>
   stdout (snd (handleSessionEnd failing initial)) = [] \<and>
   stderr (snd (handleSessionEnd failing initial)) =
     [errorLine (Error ''Failed to compress session: 500'')]"
proof -
  have a: "fst (handleUserPromptSubmit accepting initial) = 3"
    by (simp add: handleUserPromptSubmit_def accepting_fields fetchKeepAlive_fetch
        fetch_def ok_def promptOf_def)
  obtain s' where s': "handleSessionEnd failing initial = (2, s')"
      "requests s' = requests initial @ [(sessionUrl (Num 37777) ''s1'' ''compress'', post (JObj []))]"
    by (simp add: handleSessionEnd_def failing_fields fetch_def ok_def caught_def)
  have n: "network failing (sessionUrl (Num 37777) ''s1'' ''compress'') (post (JObj [])) =
      Inr \<lparr>status = 500, jsonBody = Inr (JObj [])\<rparr>"
    "\<not> ok \<lparr>status = 500, jsonBody = Inr (JObj [])\<rparr>"
    by (simp_all add: failing_fields ok_def)
  have i: "stdout initial = []" "stderr initial = []"
    by (simp_all add: initial_def)
  from sibling_handlers_contract [of accepting initial] a
  have "stdout (snd (handleUserPromptSubmit accepting initial)) = [continueLine] \<and>
        stderr (snd (handleUserPromptSubmit accepting initial)) = []"
    by (simp add: hookContract_def i split: prod.splits)
  moreover from sibling_handlers_contract [of failing initial] s' n
  have "stdout s' = [] \<and> stderr s' = [errorLine (Error ''Failed to compress session: 500'')]"
    by (simp add: hookContract_def i showNat_500)
  ultimately show ?thesis using a s' by simp
qed


text \<open>
  C9, evaluated where the worker answers every request with 200: only the prompt-submit
  handler issues its request with the keep-alive agent; the tool-observation, stop and
  session-end handlers call \<open>fetch\<close> without an agent.
\<close>

theorem hooks_transport:
  "map (agent \<circ> snd) (requests (snd (handleUserPromptSubmit accepting initial))) = [Some keepAliveAgent] \<and>
   map (agent \<circ> snd) (requests (snd (handlePostToolUse accepting initial))) = [None] \<and>
   map (agent \<circ> snd) (requests (snd (handleStop accepting initial))) = [None] \<and>
   map (agent \<circ> snd) (requests (snd (handleSessionEnd accepting initial))) = [None]"
proof -
  have i: "requests initial = []" by (simp add: initial_def)
  have u: "\<not> startsWith (sessionUrl port sid action) ''https://''" for port sid action
    by (simp add: sessionUrl_def startsWith_def)
  have "map (agent \<circ> snd) (requests (snd (handleUserPromptSubmit accepting initial))) = [Some keepAliveAgent]"
    by (simp add: handleUserPromptSubmit_def accepting_fields fetchKeepAlive_fetch fetch_def ok_def
        promptOf_def i u)
  moreover have "map (agent \<circ> snd) (requests (snd (handlePostToolUse accepting initial))) = [None]"
    by (simp add: handlePostToolUse_def accepting_fields fetch_def ok_def post_def i)
  moreover have "map (agent \<circ> snd) (requests (snd (handleStop accepting initial))) = [None]"
    by (simp add: handleStop_def accepting_fields fetch_def ok_def post_def i)
  moreover have "map (agent \<circ> snd) (requests (snd (handleSessionEnd accepting initial))) = [None]"
    by (simp add: handleSessionEnd_def accepting_fields fetch_def ok_def post_def i)
  ultimately show ?thesis by blast
qed


lemma Number_parseInt_37777: "Number_parseInt ''37777'' = Num 37777"
  by (simp add: Number_parseInt_def isWhiteSpace_def isDigit_def digitsValue_def)

lemma startPort_failing: "startPort failing = Num 37777"
  by (simp add: startPort_def failing_def exampleWorld_def Number_parseInt_37777)

lemma initUrl: "apiUrl (Num 37777) ''/api/sessions/init'' = ''http://127.0.0.1:37777/api/sessions/init''"
  by (simp add: apiUrl_def showInt_37777)

lemma failing_cwd: "cwd failing = Inr ''/home/dev/project''"
  by (simp add: failing_def exampleWorld_def)

text \<open>
  C1, evaluated where the worker answers every request with status 500 and a JSON body:
  the session-start handler issues its request, does not look at the status, writes the
  inject line and exits with 0, and nothing reaches the error stream; the stop handler in
  the same world exits with 2 and the line \<open>Failed to prepare session: 500\<close>.
\<close>

theorem handleSessionStart_ignores_status:
  "map (\<lambda>(url, i). network failing url i) (requests (snd (handleSessionStart failing initial))) =
     [Inr \<lparr>status = 500, jsonBody = Inr (JObj [])\<rparr>] \<and>
   \<not> ok \<lparr>status = 500, jsonBody = Inr (JObj [])\<rparr> \<and>
   map fst (requests (snd (handleSessionStart failing initial))) =
     [''http://127.0.0.1:37777/api/sessions/init''] \<and>
   fst (handleSessionStart failing initial) = 0 \<and>
   stdout (snd (handleSessionStart failing initial)) = [injectLine (JObj [])] \<and>
   stderr (snd (handleSessionStart failing initial)) = [] \<and>
   fst (handleStop failing initial) = 2 \<and>
   stderr (snd (handleStop failing initial)) = [errorLine (Error ''Failed to prepare session: 500'')]"
proof -
  have i: "requests initial = []" "stdout initial = []" "stderr initial = []"
    by (simp_all add: initial_def)
  have a: "handleSessionStart failing initial =
      (0, initial\<lparr>requests := [(''http://127.0.0.1:37777/api/sessions/init'',
             (post (JObj [(''sessionId'', JStr ''s1''), (''project'', JStr ''/home/dev/project''),
                (''prompt'', JStr [])]))\<lparr>agent := Some keepAliveAgent\<rparr>)],
           stdout := [injectLine (JObj [])]\<rparr>)"
    by (simp add: handleSessionStart_def failing_fields failing_cwd startPort_failing initUrl
        fetchKeepAlive_fetch fetch_def startsWith_def i)
  have b: "handleStop failing initial =
      caught (Error ''Failed to prepare session: 500'')
        (initial\<lparr>fileReads := 1, cachedPort := Some (Num 37777), cacheTime := 1000,
           requests := [(sessionUrl (Num 37777) ''s1'' ''prepare'', post (JObj []))]\<rparr>)"
    by (simp add: handleStop_def failing_fields fetch_def ok_def showNat_500 i)
  show ?thesis
    by (simp add: a b caught_def failing_fields ok_def i)
qed

section \<open>Properties of the liveness check\<close>

lemma healthUrl: "apiUrl (Num 37777) ''/api/health'' =
    ''http://127.0.0.1:37777/api/health''"
  by (simp add: apiUrl_def showInt_37777)

lemma versionUrl: "apiUrl (Num 37777) ''/api/version'' =
    ''http://127.0.0.1:37777/api/version''"
  by (simp add: apiUrl_def showInt_37777)

lemma not_https: "\<not> startsWith (apiUrl port path) ''https://''"
  by (simp add: apiUrl_def startsWith_def)

lemma healthyNoVersion_fields:
  "packageJson healthyNoVersion = Inr (JObj [(''version'', JStr ''9.1.2'')])"
  "network healthyNoVersion ''http://127.0.0.1:37777/api/health'' i =
     Inr \<lparr>status = 200, jsonBody = Inr (JObj [(''status'', JStr ''ok'')])\<rparr>"
  "network healthyNoVersion ''http://127.0.0.1:37777/api/version'' i = Inl (Error ''socket hang up'')"
  "getWorkerPort healthyNoVersion initial =
    (Inr (Num 37777), initial\<lparr>fileReads := 1, cachedPort := Some (Num 37777), cacheTime := 1000\<rparr>)"
  "now healthyNoVersion = 1000"
  "env healthyNoVersion = []"
  by (simp_all add: healthyNoVersion_def port_example) (simp_all add: exampleWorld_def)

text \<open>
  C2, evaluated where the worker answers the health probe with 200 and the version request
  is dropped: the health probe says healthy, one health request and one version request
  are issued, and \<open>ensureWorkerRunning\<close> returns false.
\<close>

theorem ensureWorkerRunning_version_failure:
  "fst (isWorkerHealthy healthyNoVersion initial) = Inr True \<and>
   fst (ensureWorkerRunning healthyNoVersion initial) = False \<and>
   map fst (requests (snd (ensureWorkerRunning healthyNoVersion initial))) =
     [''http://127.0.0.1:37777/api/health'', ''http://127.0.0.1:37777/api/version'']"
proof -
  let ?ka = "noInit\<lparr>agent := Some keepAliveAgent\<rparr>"
  let ?s1 = "initial\<lparr>fileReads := Suc 0, cachedPort := Some (Num 37777), cacheTime := 1000,
      requests := [(''http://127.0.0.1:37777/api/health'', ?ka)]\<rparr>"
  have h: "isWorkerHealthy healthyNoVersion initial = (Inr True, ?s1)"
    by (simp add: isWorkerHealthy_def healthyNoVersion_fields healthUrl fetchKeepAlive_fetch
        fetch_def ok_def startsWith_def)
      (simp add: initial_def)
  have "envOverride healthyNoVersion = None"
    by (simp add: envOverride_def healthyNoVersion_fields)
  then have g: "getWorkerPort healthyNoVersion ?s1 = (Inr (Num 37777), ?s1)"
    by (rule getWorkerPort_hit) (simp_all add: healthyNoVersion_fields CACHE_TTL_def)
  have v: "checkWorkerVersion healthyNoVersion ?s1 =
      (Inl (Error ''socket hang up''),
       ?s1\<lparr>requests := [(''http://127.0.0.1:37777/api/health'', ?ka),
           (''http://127.0.0.1:37777/api/version'', ?ka)]\<rparr>)"
    by (simp add: checkWorkerVersion_def getPluginVersion_def getWorkerVersion_def g
        healthyNoVersion_fields versionUrl fetchKeepAlive_fetch fetch_def startsWith_def)
  show ?thesis
    by (simp add: ensureWorkerRunning_def h v healthCheckFailed_def notHealthy_def logger_def)
qed

text \<open>
  C3, as the claim states it, fails: with no listener on the port, \<open>isWorkerHealthy\<close>
  does not return false, it throws what the network call threw.
\<close>

theorem isWorkerHealthy_raises_counterexample:
  "fst (isWorkerHealthy exampleWorld initial) = Inl (Error ''connect ECONNREFUSED'') \<and>
   fst (isWorkerHealthy exampleWorld initial) \<noteq> Inr False"
proof -
  have "getWorkerPort exampleWorld initial =
    (Inr (Num 37777), initial\<lparr>fileReads := 1, cachedPort := Some (Num 37777), cacheTime := 1000\<rparr>)"
    using port_example [of "network exampleWorld"] by simp
  then show ?thesis
    by (simp add: isWorkerHealthy_def fetchKeepAlive_fetch fetch_def)
      (simp add: exampleWorld_def refused_def)
qed

text \<open>
  C3, amended: when the port resolves, \<open>isWorkerHealthy\<close> returns \<open>response.ok\<close> if the
  probe is answered and throws what the network call threw if it is rejected; whatever
  \<open>isWorkerHealthy\<close> throws, its caller \<open>ensureWorkerRunning\<close> returns false.
\<close>

theorem isWorkerHealthy_propagates:
  "(getWorkerPort w s = (Inr port, s1) \<longrightarrow>
      fst (isWorkerHealthy w s) =
        (case network w (apiUrl port ''/api/health'')
                (noInit\<lparr>agent := Some keepAliveAgent\<rparr>) of
           Inl e \<Rightarrow> Inl e
         | Inr response \<Rightarrow> Inr (ok response))) \<and>
   (\<forall>e. fst (isWorkerHealthy w s) = Inl e \<longrightarrow> fst (ensureWorkerRunning w s) = False)"
proof (intro conjI impI allI)
  assume "getWorkerPort w s = (Inr port, s1)"
  then show "fst (isWorkerHealthy w s) =
        (case network w (apiUrl port ''/api/health'')
                (noInit\<lparr>agent := Some keepAliveAgent\<rparr>) of
           Inl e \<Rightarrow> Inl e
         | Inr response \<Rightarrow> Inr (ok response))"
    by (simp add: isWorkerHealthy_def fetchKeepAlive_fetch fetch_def not_https split: sum.splits)
next
  fix e
  assume "fst (isWorkerHealthy w s) = Inl e"
  then obtain s' where "isWorkerHealthy w s = (Inl e, s')"
    by (cases "isWorkerHealthy w s") simp
  then show "fst (ensureWorkerRunning w s) = False"
    by (simp add: ensureWorkerRunning_def healthCheckFailed_def notHealthy_def)
qed

theorem isWorkerHealthy_propagates_witness:
  "fst (isWorkerHealthy exampleWorld initial) = Inl (Error ''connect ECONNREFUSED'') \<and>
   fst (ensureWorkerRunning exampleWorld initial) = False"
proof -
  have p: "getWorkerPort exampleWorld initial =
    (Inr (Num 37777), initial\<lparr>fileReads := 1, cachedPort := Some (Num 37777), cacheTime := 1000\<rparr>)"
    using port_example [of "network exampleWorld"] by simp
  have n: "network exampleWorld url i = Inl (Error ''connect ECONNREFUSED'')" for url i
    by (simp add: exampleWorld_def refused_def)
  note T = isWorkerHealthy_propagates [of exampleWorld initial "Num 37777"
      "initial\<lparr>fileReads := 1, cachedPort := Some (Num 37777), cacheTime := 1000\<rparr>"]
  from T p have a: "fst (isWorkerHealthy exampleWorld initial) = Inl (Error ''connect ECONNREFUSED'')"
    by (simp add: n)
  with T have "fst (ensureWorkerRunning exampleWorld initial) = False"
    by blast
  with a show ?thesis by simp
qed

section \<open>Properties of the request with a timeout\<close>







end
